theory Spec2Isabelle
  imports Complex_Main "HOL-Library.Word" "HOL-Library.Signed_Division"
begin

section \<open>Host-language values\<close>

text \<open>
  Strings are lists of 8-bit characters.  Arbitrary-precision amounts (the \<open>BN\<close> class of
  the bn.js library) are unbounded integers.  A native number that carries an integral
  quantity (an amount, an identifier, a price) is an integer; bn.js accepts it only when
  its magnitude is below \<open>2^53\<close>, and \<open>new_BN\<close> below has that check.  A native number
  that the code itself tests for integrality (the \<open>decimals\<close> argument of \<open>parseAmount\<close>)
  is a \<open>js_number\<close>.
\<close>

datatype js_number = Finite rat | NaN | PosInfinity | NegInfinity

text \<open>\<open>decimals < 0\<close> on a native number.\<close>

fun number_lt_zero :: "js_number \<Rightarrow> bool" where
  "number_lt_zero (Finite r) = (r < 0)"
| "number_lt_zero NaN = False"
| "number_lt_zero PosInfinity = False"
| "number_lt_zero NegInfinity = True"

text \<open>\<open>Number.isInteger\<close>.\<close>

fun Number_isInteger :: "js_number \<Rightarrow> bool" where
  "Number_isInteger (Finite r) = (of_int \<lfloor>r\<rfloor> = r)"
| "Number_isInteger NaN = False"
| "Number_isInteger PosInfinity = False"
| "Number_isInteger NegInfinity = False"

text \<open>The length that \<open>padEnd\<close> and \<open>slice\<close> read from a number already known to be a
  non-negative integer.\<close>

fun toLength :: "js_number \<Rightarrow> nat" where
  "toLength (Finite r) = nat \<lfloor>r\<rfloor>"
| "toLength NaN = 0"
| "toLength PosInfinity = 0"
| "toLength NegInfinity = 0"

subsection \<open>Strings\<close>

definition is_digit :: "char \<Rightarrow> bool" where
  "is_digit c = (48 \<le> (of_char c :: nat) \<and> (of_char c :: nat) \<le> 57)"

definition digit_val :: "char \<Rightarrow> nat" where
  "digit_val c = (of_char c :: nat) - 48"

definition digit_char :: "nat \<Rightarrow> char" where
  "digit_char n = ''0123456789'' ! (n mod 10)"

text \<open>The white space that \<open>String.prototype.trim\<close> strips, among 8-bit characters:
  tab, line feed, vertical tab, form feed, carriage return, space, no-break space.\<close>

definition is_whitespace :: "char \<Rightarrow> bool" where
  "is_whitespace c = ((of_char c :: nat) \<in> {9, 10, 11, 12, 13, 32, 160})"

definition trim :: "string \<Rightarrow> string" where
  "trim s = rev (dropWhile is_whitespace (rev (dropWhile is_whitespace s)))"

text \<open>\<open>padStart\<close> and \<open>padEnd\<close> with a one-character filler.\<close>

definition padStart :: "string \<Rightarrow> nat \<Rightarrow> char \<Rightarrow> string" where
  "padStart s n c = replicate (n - length s) c @ s"

definition padEnd :: "string \<Rightarrow> nat \<Rightarrow> char \<Rightarrow> string" where
  "padEnd s n c = s @ replicate (n - length s) c"

text \<open>\<open>startsWith\<close> and \<open>includes\<close>.\<close>

fun starts_with :: "string \<Rightarrow> string \<Rightarrow> bool" where
  "starts_with s [] = True"
| "starts_with [] (n # ns) = False"
| "starts_with (c # cs) (n # ns) = (c = n \<and> starts_with cs ns)"

fun str_includes :: "string \<Rightarrow> string \<Rightarrow> bool" where
  "str_includes [] n = (n = [])"
| "str_includes (c # cs) n = (starts_with (c # cs) n \<or> str_includes cs n)"

text \<open>\<open>toLowerCase\<close> on 8-bit characters: A-Z, and the Latin-1 capitals other than the
  multiplication sign.\<close>

definition lower_char :: "char \<Rightarrow> char" where
  "lower_char c =
     (let k = (of_char c :: nat) in
      if (65 \<le> k \<and> k \<le> 90) \<or> (192 \<le> k \<and> k \<le> 222 \<and> k \<noteq> 215) then char_of (k + 32) else c)"

definition toLowerCase :: "string \<Rightarrow> string" where
  "toLowerCase s = map lower_char s"

subsection \<open>Decimal notation of arbitrary-precision integers\<close>

text \<open>\<open>BN.prototype.toString()\<close> in base ten: no leading zeros, a minus sign for negative
  values.\<close>

fun dec_digits :: "nat \<Rightarrow> string" where
  "dec_digits n =
     (if n < 10 then [digit_char n] else dec_digits (n div 10) @ [digit_char (n mod 10)])"

definition BN_toString :: "int \<Rightarrow> string" where
  "BN_toString x = (if x < 0 then CHR ''-'' # dec_digits (nat (- x)) else dec_digits (nat x))"

text \<open>\<open>new BN(s)\<close> in base ten, on a string of decimal digits (the only strings
  \<open>parseAmount\<close> passes to it).\<close>

definition BN_of_digits :: "string \<Rightarrow> int" where
  "BN_of_digits s = int (foldl (\<lambda>acc c. 10 * acc + digit_val c) 0 s)"

text \<open>A native integer inside a template literal: plain decimal notation (the host prints
  every integer of magnitude below \<open>10^21\<close> so).\<close>

definition Number_toString :: "int \<Rightarrow> string" where
  "Number_toString n = (if n < 0 then CHR ''-'' # dec_digits (nat (- n)) else dec_digits (nat n))"

section \<open>Errors (errors.ts)\<close>

datatype error_name =
    Error | RFlowError | FetchError | DealNotFoundError | InvalidInputError
  | ProtocolPausedError | InvalidDurationError | DealNotAvailableError | UnauthorizedError

text \<open>A thrown value: an instance of \<open>Error\<close> or of one of the classes of errors.ts, with
  its message, its optional code, logs and cause; or a value that is no \<open>Error\<close> at all.\<close>

datatype thrown =
    Thrown error_name string "int option" "string list option" "thrown option"
  | NonError

fun message_of :: "thrown \<Rightarrow> string" where
  "message_of (Thrown n m c l k) = m"
| "message_of NonError = []"

fun name_of :: "thrown \<Rightarrow> error_name option" where
  "name_of (Thrown n m c l k) = Some n"
| "name_of NonError = None"

definition new_Error :: "string \<Rightarrow> thrown" where
  "new_Error msg = Thrown Error msg None None None"

definition new_RFlowError :: "string \<Rightarrow> int option \<Rightarrow> string list option \<Rightarrow> thrown" where
  "new_RFlowError msg c l = Thrown RFlowError msg c l None"

definition new_FetchError :: "string \<Rightarrow> thrown \<Rightarrow> thrown" where
  "new_FetchError msg cause = Thrown FetchError (''Failed to fetch account: '' @ msg) None None (Some cause)"


definition new_ProtocolPausedError :: thrown where
  "new_ProtocolPausedError = Thrown ProtocolPausedError ''Protocol is currently paused'' (Some 6000) None None"

definition new_InvalidDurationError :: "int \<Rightarrow> thrown" where
  "new_InvalidDurationError duration =
     Thrown InvalidDurationError
       (''Invalid duration: '' @ Number_toString duration @ ''. Must be 30, 60, 90, 180, or 365 days'')
       (Some 6001) None None"

datatype number_or_string = IdNumber int | IdString string

fun template_of :: "number_or_string \<Rightarrow> string" where
  "template_of (IdNumber n) = Number_toString n"
| "template_of (IdString s) = s"

text \<open>Truthiness of a number or string: zero and the empty string are falsy.\<close>

fun truthy :: "number_or_string \<Rightarrow> bool" where
  "truthy (IdNumber n) = (n \<noteq> 0)"
| "truthy (IdString s) = (s \<noteq> [])"

definition new_DealNotAvailableError :: "number_or_string \<Rightarrow> thrown" where
  "new_DealNotAvailableError dealId =
     Thrown DealNotAvailableError (''Deal '' @ template_of dealId @ '' is not available for purchase'')
       (Some 6004) None None"

definition new_UnauthorizedError :: "string \<Rightarrow> thrown" where
  "new_UnauthorizedError msg = Thrown UnauthorizedError msg (Some 6012) None None"

text \<open>\<open>isAccountNotFoundError\<close>: four phrasings, looked for in the lower-cased message of an
  \<open>Error\<close> instance.\<close>

fun isAccountNotFoundError :: "thrown \<Rightarrow> bool" where
  "isAccountNotFoundError (Thrown n m c l k) =
     (let message = toLowerCase m in
        str_includes message ''account does not exist'' \<or>
        str_includes message ''could not find'' \<or>
        str_includes message ''account not found'' \<or>
        str_includes message ''accountnotfound'')"
| "isAccountNotFoundError NonError = False"

record ErrorContext =
  ctx_dealId :: "number_or_string option"
  ctx_duration :: "int option"
  ctx_operation :: "string option"

text \<open>\<open>extractNumberFromMessage\<close>: \<open>parseInt\<close> of the first run of decimal digits.  The
  host rounds a run of more than fifteen digits to the nearest double; the model keeps the
  integer the run denotes, which is what the host returns for every safe integer.\<close>

definition extractNumberFromMessage :: "string \<Rightarrow> int option" where
  "extractNumberFromMessage message =
     (let run = takeWhile is_digit (dropWhile (\<lambda>c. \<not> is_digit c) message) in
      if run = [] then None else Some (BN_of_digits run))"

text \<open>What \<open>parseAnchorError\<close> receives: an error of this library's own classes, or a fault
  descriptor with optional \<open>code\<close>, \<open>msg\<close>, \<open>message\<close> and \<open>logs\<close>.\<close>

datatype fault =
    OwnError thrown
  | Descriptor "int option" "string option" "string option" "string list option"

text \<open>\<open>errorObj.msg || errorObj.message || "Unknown error"\<close>: an empty string is falsy.\<close>

definition effective_message :: "string option \<Rightarrow> string option \<Rightarrow> string" where
  "effective_message msg message =
     (case msg of
        Some m \<Rightarrow> if m \<noteq> [] then m
                  else (case message of Some m' \<Rightarrow> if m' \<noteq> [] then m' else ''Unknown error''
                        | None \<Rightarrow> ''Unknown error'')
      | None \<Rightarrow> (case message of Some m' \<Rightarrow> if m' \<noteq> [] then m' else ''Unknown error''
                 | None \<Rightarrow> ''Unknown error''))"

definition context_dealId :: "ErrorContext option \<Rightarrow> number_or_string option" where
  "context_dealId context = (case context of None \<Rightarrow> None | Some c \<Rightarrow> ctx_dealId c)"

definition context_duration :: "ErrorContext option \<Rightarrow> int option" where
  "context_duration context = (case context of None \<Rightarrow> None | Some c \<Rightarrow> ctx_duration c)"

definition context_operation :: "ErrorContext option \<Rightarrow> string option" where
  "context_operation context = (case context of None \<Rightarrow> None | Some c \<Rightarrow> ctx_operation c)"

text \<open>The suffixes \<open>in <operation>\<close> and \<open>(deal <id>)\<close>, added when the context field is
  truthy.\<close>

definition operation_suffix :: "ErrorContext option \<Rightarrow> string" where
  "operation_suffix context =
     (case context_operation context of
        Some opn \<Rightarrow> if opn \<noteq> [] then '' in '' @ opn else []
      | None \<Rightarrow> [])"

definition deal_suffix :: "ErrorContext option \<Rightarrow> string" where
  "deal_suffix context =
     (case context_dealId context of
        Some i \<Rightarrow> if truthy i then '' (deal '' @ template_of i @ '')'' else []
      | None \<Rightarrow> [])"

definition parseAnchorError :: "fault \<Rightarrow> ErrorContext option \<Rightarrow> thrown" where
  "parseAnchorError error context =
     (case error of
        OwnError e \<Rightarrow> e
      | Descriptor code msg message' logs \<Rightarrow>
          let message = effective_message msg message' in
          if code = Some 6000 then new_ProtocolPausedError
          else if code = Some 6001 then
            new_InvalidDurationError
              (case context_duration context of
                 Some d \<Rightarrow> d
               | None \<Rightarrow> (case extractNumberFromMessage message of Some d \<Rightarrow> d | None \<Rightarrow> 0))
          else if code = Some 6002 then
            new_RFlowError (''Invalid price'' @ operation_suffix context) code logs
          else if code = Some 6003 then
            new_RFlowError (''Invalid amount'' @ operation_suffix context) code logs
          else if code = Some 6004 then
            new_DealNotAvailableError
              (case context_dealId context of
                 Some i \<Rightarrow> i
               | None \<Rightarrow> (case extractNumberFromMessage message of
                            Some n \<Rightarrow> IdNumber n
                          | None \<Rightarrow> IdString ''unknown''))
          else if code = Some 6005 then
            new_RFlowError (''Deal is not active'' @ deal_suffix context) code logs
          else if code = Some 6006 then
            new_RFlowError (''Deal has not ended yet'' @ deal_suffix context) code logs
          else if code = Some 6007 then
            new_RFlowError (''Deal has already ended'' @ deal_suffix context) code logs
          else if code = Some 6008 then
            new_RFlowError (''Deal is already active'' @ deal_suffix context) code logs
          else if code = Some 6009 then
            new_UnauthorizedError ''Only the seller can perform this action''
          else if code = Some 6010 then
            new_UnauthorizedError ''Only the buyer can perform this action''
          else if code = Some 6011 then new_RFlowError ''Insufficient funds'' code logs
          else if code = Some 6012 then new_UnauthorizedError message
          else if code = Some 6013 then new_RFlowError ''Math overflow - amount too large'' code logs
          else if code = Some 6014 then new_RFlowError ''Invalid or non-whitelisted mint'' code logs
          else if code = Some 6015 then new_RFlowError ''Whitelist is full'' code logs
          else if code = Some 6016 then new_RFlowError ''Mint is already whitelisted'' code logs
          else if code = Some 6017 then new_RFlowError ''Mint is not in whitelist'' code logs
          else if code = Some 6018 then new_RFlowError ''Invalid Meteora position'' code logs
          else if code = Some 6019 then new_RFlowError ''Position pool mismatch'' code logs
          else if code = Some 6020 then new_RFlowError ''Invalid position NFT'' code logs
          else if code = Some 6021 then
            new_UnauthorizedError ''Only the deal buyer can perform this action''
          else new_RFlowError message code logs)"

section \<open>Fixed-point amount codec (utils/bn.ts)\<close>

text \<open>\<open>BN.prototype.toNumber()\<close>: bn.js refuses a value that does not fit 53 bits.\<close>

definition BN_toNumber :: "int \<Rightarrow> thrown + int" where
  "BN_toNumber x =
     (if \<bar>x\<bar> < 2 ^ 53 then Inr x
      else Inl (new_Error ''Number can only safely store up to 53 bits''))"

text \<open>\<open>new BN(number)\<close> on a native integer: bn.js asserts that the magnitude is below
  \<open>2^53\<close> and throws the plain \<open>Error\<close> "Assertion failed" otherwise; below the bound
  the value is exact.\<close>

definition new_BN :: "int \<Rightarrow> thrown + int" where
  "new_BN n = (if \<bar>n\<bar> < 2 ^ 53 then Inr n else Inl (new_Error ''Assertion failed''))"

text \<open>\<open>toBN\<close> takes a native number or a \<open>BN\<close>.\<close>

datatype number_or_BN = Num int | Bn int

definition toBN :: "number_or_BN \<Rightarrow> thrown + int" where
  "toBN v =
     (case v of
        Num n \<Rightarrow>
          if n < 0
          then Inl (new_Error (''Cannot convert negative number to BN: '' @ Number_toString n))
          else new_BN n
      | Bn b \<Rightarrow> Inr b)"

text \<open>A \<open>Date\<close> holds a time value in milliseconds, or is invalid when the argument lies
  outside the range of \<open>\<plusminus>8.64e15\<close> milliseconds.\<close>

datatype js_Date = ValidDate int | InvalidDate

definition new_Date :: "int \<Rightarrow> js_Date" where
  "new_Date ms = (if \<bar>ms\<bar> \<le> 8640000000000000 then ValidDate ms else InvalidDate)"

definition bnToDate :: "int \<Rightarrow> thrown + js_Date option" where
  "bnToDate timestamp =
     (case BN_toNumber timestamp of
        Inl e \<Rightarrow> Inl e
      | Inr ts \<Rightarrow> Inr (if ts = 0 then None else Some (new_Date (ts * 1000))))"

text \<open>\<open>formatAmount\<close>; \<open>decimals\<close> is a count of digits. \<open>BN.div\<close> and \<open>BN.mod\<close> truncate
  towards zero.  A count that the host cannot pad a string to (the bound of \<open>new BN\<close> lies
  far beyond that) is outside the model.\<close>

definition formatAmount :: "int \<Rightarrow> nat \<Rightarrow> string" where
  "formatAmount amount decimals =
     (let divisor = (10::int) ^ decimals;
          integerPart = amount sdiv divisor;
          fractionalPart = amount smod divisor;
          fractionalStr = padStart (BN_toString fractionalPart) decimals (CHR ''0'')
      in BN_toString integerPart @ ''.'' @ fractionalStr)"

text \<open>The pattern \<open>/^(\d+)(?:\.(\d+))?$/\<close>: the two capture groups on a match.\<close>

definition AMOUNT_PATTERN :: "string \<Rightarrow> (string \<times> string option) option" where
  "AMOUNT_PATTERN s =
     (let integerPart = takeWhile is_digit s; rest = dropWhile is_digit s in
      if integerPart = [] then None
      else case rest of
             [] \<Rightarrow> Some (integerPart, None)
           | c # fractionalPart \<Rightarrow>
               if c = CHR ''.'' \<and> fractionalPart \<noteq> [] \<and> list_all is_digit fractionalPart
               then Some (integerPart, Some fractionalPart) else None)"

text \<open>The two errors of \<open>parseAmount\<close>: \<open>InvalidAmountFormatError\<close> with the original
  string, and the plain \<open>Error\<close> "Invalid decimals: ..." with the offending count.\<close>

datatype parse_error = InvalidAmountFormatError string | InvalidDecimals js_number

definition parseAmount :: "string \<Rightarrow> js_number \<Rightarrow> parse_error + int" where
  "parseAmount v decimals =
     (let trimmed = trim v in
      if trimmed = [] then Inl (InvalidAmountFormatError v)
      else case AMOUNT_PATTERN trimmed of
             None \<Rightarrow> Inl (InvalidAmountFormatError v)
           | Some (integerPart, fractionalOpt) \<Rightarrow>
               let fractionalPart = (case fractionalOpt of None \<Rightarrow> [] | Some f \<Rightarrow> f) in
               if number_lt_zero decimals \<or> \<not> Number_isInteger decimals
               then Inl (InvalidDecimals decimals)
               else let paddedFractional =
                          take (toLength decimals)
                            (padEnd fractionalPart (toLength decimals) (CHR ''0''))
                    in Inr (BN_of_digits (integerPart @ paddedFractional)))"

definition parseAmountSafe :: "string \<Rightarrow> js_number \<Rightarrow> int option" where
  "parseAmountSafe v decimals = (case parseAmount v decimals of Inl e \<Rightarrow> None | Inr a \<Rightarrow> Some a)"

section \<open>Enumerations (types/enums.ts)\<close>

datatype DealStatus = Created | Active | Settled | Cancelled | BoughtBack

datatype SourceProtocol =
    Kamino | MarginFi | Solend | Save | Marinade | Jito | Blaze | Sanctum | Lido
  | RaydiumLp | MeteoraLp | OrcaLp | FeeStream

text \<open>The wire form of a status is an object with one key; the decoder tests key presence in
  a fixed order.  The object is given by the list of its keys.\<close>

definition fromAnchorDealStatus :: "string list \<Rightarrow> thrown + DealStatus" where
  "fromAnchorDealStatus status =
     (if ''created'' \<in> set status then Inr Created
      else if ''active'' \<in> set status then Inr Active
      else if ''settled'' \<in> set status then Inr Settled
      else if ''cancelled'' \<in> set status then Inr Cancelled
      else if ''boughtBack'' \<in> set status then Inr BoughtBack
      else Inl (new_Error ''Unknown deal status''))"

section \<open>Address derivation (pda/meteora-deal.ts, pda/config.ts)\<close>

text \<open>A \<open>PublicKey\<close> wraps a 256-bit value; \<open>PublicKey.default\<close> is the all-zero key and
  \<open>equals\<close> compares the values.\<close>

type_synonym PublicKey = "256 word"

definition PublicKey_default :: PublicKey where
  "PublicKey_default = 0"

definition bytes_of :: "string \<Rightarrow> 8 word list" where
  "bytes_of s = map (\<lambda>c. of_nat (of_char c)) s"

definition SEEDS_PROTOCOL_CONFIG :: "8 word list" where
  "SEEDS_PROTOCOL_CONFIG = bytes_of ''protocol_config''"

definition SEEDS_METEORA_LP_DEAL :: "8 word list" where
  "SEEDS_METEORA_LP_DEAL = bytes_of ''meteora_lp_deal''"

text \<open>\<open>id.toArrayLike(Buffer, "le", 8)\<close>: the magnitude in eight little-endian bytes; bn.js
  throws when it does not fit.\<close>

definition toArrayLike_le8 :: "int \<Rightarrow> thrown + 8 word list" where
  "toArrayLike_le8 x =
     (let m = nat \<bar>x\<bar> in
      if m < 2 ^ 64 then Inr (map (\<lambda>i. of_nat (m div 256 ^ i)) [0..<8])
      else Inl (new_Error ''byte array longer than desired length''))"

text \<open>\<open>PublicKey.findProgramAddressSync\<close> belongs to the ledger's client library; it is a
  parameter here.\<close>

type_synonym address_deriver = "8 word list list \<Rightarrow> PublicKey \<Rightarrow> thrown + (PublicKey \<times> int)"

definition findMeteoraLpDealPDA ::
  "address_deriver \<Rightarrow> number_or_BN \<Rightarrow> PublicKey \<Rightarrow> thrown + (PublicKey \<times> int)" where
  "findMeteoraLpDealPDA findProgramAddressSync dealId programId =
     (case (case dealId of Num n \<Rightarrow> new_BN n | Bn b \<Rightarrow> Inr b) of
        Inl e \<Rightarrow> Inl e
      | Inr id' \<Rightarrow>
     (case toArrayLike_le8 id' of
        Inl e \<Rightarrow> Inl e
      | Inr bytes \<Rightarrow> findProgramAddressSync [SEEDS_METEORA_LP_DEAL, bytes] programId))"

definition findProtocolConfigPDA ::
  "address_deriver \<Rightarrow> PublicKey \<Rightarrow> thrown + (PublicKey \<times> int)" where
  "findProtocolConfigPDA findProgramAddressSync programId =
     findProgramAddressSync [SEEDS_PROTOCOL_CONFIG] programId"

section \<open>Records and the record transformer (accounts/meteora-deal.ts)\<close>

record MeteoraLpDealAccount =
  acc_dealId :: int
  acc_bump :: int
  acc_seller :: PublicKey
  acc_buyer :: PublicKey
  acc_positionNftMint :: PublicKey
  acc_positionAccount :: PublicKey
  acc_positionNftVault :: PublicKey
  acc_pool :: PublicKey
  acc_tokenAMint :: PublicKey
  acc_tokenBMint :: PublicKey
  acc_feeAAtLock :: int
  acc_feeBAtLock :: int
  acc_expectedFeeA :: int
  acc_expectedFeeB :: int
  acc_expectedFeeValueUsdc :: int
  acc_sellingPrice :: int
  acc_paymentMint :: PublicKey
  acc_durationDays :: int
  acc_createdAt :: int
  acc_purchasedAt :: int
  acc_endsAt :: int
  acc_status :: "string list"

record MeteoraLpDeal =
  dealId :: int
  bump :: int
  pda :: PublicKey
  seller :: PublicKey
  buyer :: "PublicKey option"
  positionNftMint :: PublicKey
  positionAccount :: PublicKey
  positionNftVault :: PublicKey
  pool :: PublicKey
  tokenAMint :: PublicKey
  tokenBMint :: PublicKey
  feeAAtLock :: int
  feeBAtLock :: int
  expectedFeeA :: int
  expectedFeeB :: int
  expectedFeeValueUsdc :: int
  sellingPrice :: int
  paymentMint :: PublicKey
  durationDays :: int
  createdAt :: "js_Date option"
  purchasedAt :: "js_Date option"
  endsAt :: "js_Date option"
  status :: DealStatus
  isAvailable :: bool
  isExpired :: bool

text \<open>\<open>endsAt !== null && endsAt.getTime() < now\<close>; the time of an invalid date is \<open>NaN\<close>,
  which is less than nothing.\<close>

fun expired :: "js_Date option \<Rightarrow> int \<Rightarrow> bool" where
  "expired None now = False"
| "expired (Some (ValidDate t)) now = (t < now)"
| "expired (Some InvalidDate) now = False"

text \<open>\<open>transformMeteoraLpDeal\<close>; \<open>now\<close> is what \<open>Date.now()\<close> returns.  The conversions
  that can throw run in the order of the source: status, \<open>endsAt\<close>, \<open>dealId\<close>,
  \<open>createdAt\<close>, \<open>purchasedAt\<close>.\<close>

definition transformMeteoraLpDeal ::
  "int \<Rightarrow> MeteoraLpDealAccount \<Rightarrow> PublicKey \<Rightarrow> thrown + MeteoraLpDeal" where
  "transformMeteoraLpDeal now account pda' =
     (case fromAnchorDealStatus (acc_status account) of
        Inl e \<Rightarrow> Inl e
      | Inr status' \<Rightarrow>
     (case bnToDate (acc_endsAt account) of
        Inl e \<Rightarrow> Inl e
      | Inr endsAt' \<Rightarrow>
     (let isDefaultBuyer = (acc_buyer account = PublicKey_default) in
      case BN_toNumber (acc_dealId account) of
        Inl e \<Rightarrow> Inl e
      | Inr dealId' \<Rightarrow>
     (case bnToDate (acc_createdAt account) of
        Inl e \<Rightarrow> Inl e
      | Inr createdAt' \<Rightarrow>
     (case bnToDate (acc_purchasedAt account) of
        Inl e \<Rightarrow> Inl e
      | Inr purchasedAt' \<Rightarrow>
          Inr \<lparr> dealId = dealId',
                bump = acc_bump account,
                pda = pda',
                seller = acc_seller account,
                buyer = (if isDefaultBuyer then None else Some (acc_buyer account)),
                positionNftMint = acc_positionNftMint account,
                positionAccount = acc_positionAccount account,
                positionNftVault = acc_positionNftVault account,
                pool = acc_pool account,
                tokenAMint = acc_tokenAMint account,
                tokenBMint = acc_tokenBMint account,
                feeAAtLock = acc_feeAAtLock account,
                feeBAtLock = acc_feeBAtLock account,
                expectedFeeA = acc_expectedFeeA account,
                expectedFeeB = acc_expectedFeeB account,
                expectedFeeValueUsdc = acc_expectedFeeValueUsdc account,
                sellingPrice = acc_sellingPrice account,
                paymentMint = acc_paymentMint account,
                durationDays = acc_durationDays account,
                createdAt = createdAt',
                purchasedAt = purchasedAt',
                endsAt = endsAt',
                status = status',
                isAvailable = (status' = Created),
                isExpired = expired endsAt' now \<rparr>)))))"

section \<open>Fetching (accounts/meteora-deal.ts, accounts/config.ts)\<close>

record ProtocolConfigAccount =
  pca_authority :: PublicKey
  pca_treasury :: PublicKey
  pca_feeBps :: int
  pca_minDurationDays :: int
  pca_maxDurationDays :: int
  pca_basePenaltyBps :: int
  pca_minPenaltyBps :: int
  pca_isPaused :: bool
  pca_dealCounter :: int
  pca_bump :: int
  pca_allowedMints :: "PublicKey list"

record ProtocolConfig =
  authority :: PublicKey
  treasury :: PublicKey
  feeBps :: int
  minDurationDays :: int
  maxDurationDays :: int
  basePenaltyBps :: int
  minPenaltyBps :: int
  isPaused :: bool
  dealCounter :: int
  allowedMints :: "PublicKey list"

text \<open>The transport collaborator, as the \<open>program\<close> object gives it: a single-record fetch
  and a fetch of the whole collection for liquidity deals, a single-record fetch for the
  configuration.  Each either resolves or rejects with a thrown value.\<close>

record Program =
  programId :: PublicKey
  meteoraLpDeal_fetch :: "PublicKey \<Rightarrow> thrown + MeteoraLpDealAccount"
  meteoraLpDeal_all :: "thrown + (PublicKey \<times> MeteoraLpDealAccount) list"
  protocolConfig_fetch :: "PublicKey \<Rightarrow> thrown + ProtocolConfigAccount"

definition dealId_toString :: "number_or_BN \<Rightarrow> string" where
  "dealId_toString dealId' = (case dealId' of Num n \<Rightarrow> Number_toString n | Bn b \<Rightarrow> BN_toString b)"

text \<open>The \<open>catch\<close> clause shared by the single-record fetches.\<close>

definition on_fetch_fault :: "string \<Rightarrow> thrown \<Rightarrow> thrown + 'a option" where
  "on_fetch_fault what error =
     (if isAccountNotFoundError error then Inr None else Inl (new_FetchError what error))"

definition fetchMeteoraLpDeal ::
  "address_deriver \<Rightarrow> int \<Rightarrow> Program \<Rightarrow> number_or_BN \<Rightarrow> thrown + MeteoraLpDeal option" where
  "fetchMeteoraLpDeal findProgramAddressSync now program dealId' =
     (let what = ''MeteoraLpDeal '' @ dealId_toString dealId' in
      case findMeteoraLpDealPDA findProgramAddressSync dealId' (programId program) of
        Inl error \<Rightarrow> on_fetch_fault what error
      | Inr (dealPda, b) \<Rightarrow>
     (case meteoraLpDeal_fetch program dealPda of
        Inl error \<Rightarrow> on_fetch_fault what error
      | Inr account \<Rightarrow>
     (case transformMeteoraLpDeal now account dealPda of
        Inl error \<Rightarrow> on_fetch_fault what error
      | Inr deal \<Rightarrow> Inr (Some deal))))"

text \<open>\<open>toBase58\<close> belongs to the ledger's client library; it is a parameter here.\<close>

definition fetchMeteoraLpDealByPda ::
  "(PublicKey \<Rightarrow> string) \<Rightarrow> int \<Rightarrow> Program \<Rightarrow> PublicKey \<Rightarrow> thrown + MeteoraLpDeal option" where
  "fetchMeteoraLpDealByPda toBase58 now program dealPda =
     (let what = ''MeteoraLpDeal at '' @ toBase58 dealPda in
      case meteoraLpDeal_fetch program dealPda of
        Inl error \<Rightarrow> on_fetch_fault what error
      | Inr account \<Rightarrow>
     (case transformMeteoraLpDeal now account dealPda of
        Inl error \<Rightarrow> on_fetch_fault what error
      | Inr deal \<Rightarrow> Inr (Some deal)))"

definition transformProtocolConfig :: "ProtocolConfigAccount \<Rightarrow> thrown + ProtocolConfig" where
  "transformProtocolConfig account =
     (case BN_toNumber (pca_dealCounter account) of
        Inl e \<Rightarrow> Inl e
      | Inr counter \<Rightarrow>
          Inr \<lparr> authority = pca_authority account,
                treasury = pca_treasury account,
                feeBps = pca_feeBps account,
                minDurationDays = pca_minDurationDays account,
                maxDurationDays = pca_maxDurationDays account,
                basePenaltyBps = pca_basePenaltyBps account,
                minPenaltyBps = pca_minPenaltyBps account,
                isPaused = pca_isPaused account,
                dealCounter = counter,
                allowedMints = pca_allowedMints account \<rparr>)"

definition fetchProtocolConfig ::
  "address_deriver \<Rightarrow> Program \<Rightarrow> thrown + ProtocolConfig option" where
  "fetchProtocolConfig findProgramAddressSync program =
     (case findProtocolConfigPDA findProgramAddressSync (programId program) of
        Inl error \<Rightarrow> on_fetch_fault ''ProtocolConfig'' error
      | Inr (configPda, b) \<Rightarrow>
     (case protocolConfig_fetch program configPda of
        Inl error \<Rightarrow> on_fetch_fault ''ProtocolConfig'' error
      | Inr account \<Rightarrow>
     (case transformProtocolConfig account of
        Inl error \<Rightarrow> on_fetch_fault ''ProtocolConfig'' error
      | Inr config \<Rightarrow> Inr (Some config))))"

text \<open>\<open>RFlowClient.getConfig\<close> and \<open>RFlowClient.isPaused\<close>: \<open>config?.isPaused ?? false\<close>.\<close>

definition getConfig :: "address_deriver \<Rightarrow> Program \<Rightarrow> thrown + ProtocolConfig option" where
  "getConfig findProgramAddressSync program = fetchProtocolConfig findProgramAddressSync program"

definition RFlowClient_isPaused :: "address_deriver \<Rightarrow> Program \<Rightarrow> thrown + bool" where
  "RFlowClient_isPaused findProgramAddressSync program =
     (case getConfig findProgramAddressSync program of
        Inl e \<Rightarrow> Inl e
      | Inr config \<Rightarrow> Inr (case config of None \<Rightarrow> False | Some c \<Rightarrow> isPaused c))"

section \<open>Query filters (accounts/meteora-deal.ts)\<close>

datatype status_filter = One DealStatus | Many "DealStatus list"

record DealFilters =
  f_status :: "status_filter option"
  f_seller :: "PublicKey option"
  f_buyer :: "PublicKey option"
  f_sourceProtocol :: "SourceProtocol option"
  f_minPrice :: "number_or_BN option"
  f_maxPrice :: "number_or_BN option"

text \<open>\<open>Array.isArray(filters.status) ? filters.status : [filters.status]\<close>.\<close>

fun statuses_of :: "status_filter \<Rightarrow> DealStatus list" where
  "statuses_of (One s) = [s]"
| "statuses_of (Many ss) = ss"

text \<open>\<open>if (filters.minPrice)\<close>: a price bound takes part when it is truthy; the number zero is
  falsy, every \<open>BN\<close> object is truthy.  The bound is then read as a \<open>BN\<close>, a native number
  through \<open>new BN\<close>, which can throw.\<close>

fun price_bound :: "number_or_BN option \<Rightarrow> thrown + int option" where
  "price_bound None = Inr None"
| "price_bound (Some (Num n)) =
     (if n \<noteq> 0 then (case new_BN n of Inl e \<Rightarrow> Inl e | Inr m \<Rightarrow> Inr (Some m)) else Inr None)"
| "price_bound (Some (Bn b)) = Inr (Some b)"

text \<open>The filter steps in the order of the source: status, seller, buyer, minimum price,
  maximum price; a throwing price bound aborts the fetch.\<close>

definition apply_filters :: "MeteoraLpDeal list \<Rightarrow> DealFilters \<Rightarrow> thrown + MeteoraLpDeal list" where
  "apply_filters deals filters =
     (let deals1 = (case f_status filters of
                      Some st \<Rightarrow> filter (\<lambda>d. status d \<in> set (statuses_of st)) deals
                    | None \<Rightarrow> deals);
          deals2 = (case f_seller filters of
                      Some k \<Rightarrow> filter (\<lambda>d. seller d = k) deals1
                    | None \<Rightarrow> deals1);
          deals3 = (case f_buyer filters of
                      Some k \<Rightarrow> filter (\<lambda>d. case buyer d of Some b \<Rightarrow> b = k | None \<Rightarrow> False) deals2
                    | None \<Rightarrow> deals2)
      in case price_bound (f_minPrice filters) of
           Inl e \<Rightarrow> Inl e
         | Inr min_bound \<Rightarrow>
             (let deals4 = (case min_bound of
                              Some m \<Rightarrow> filter (\<lambda>d. sellingPrice d \<ge> m) deals3
                            | None \<Rightarrow> deals3)
              in case price_bound (f_maxPrice filters) of
                   Inl e \<Rightarrow> Inl e
                 | Inr max_bound \<Rightarrow>
                     Inr (case max_bound of
                            Some m \<Rightarrow> filter (\<lambda>d. sellingPrice d \<le> m) deals4
                          | None \<Rightarrow> deals4)))"

text \<open>\<open>accounts.map(transform)\<close>: the records are decoded in order, each call reading the
  clock anew (\<open>clock i\<close> is the time at the \<open>i\<close>-th call); the first decode that throws
  aborts the whole fetch.\<close>

fun transform_all ::
  "(nat \<Rightarrow> int) \<Rightarrow> nat \<Rightarrow> (PublicKey \<times> MeteoraLpDealAccount) list \<Rightarrow> thrown + MeteoraLpDeal list" where
  "transform_all clock i [] = Inr []"
| "transform_all clock i ((publicKey, account) # rest) =
     (case transformMeteoraLpDeal (clock i) account publicKey of
        Inl e \<Rightarrow> Inl e
      | Inr d \<Rightarrow>
          (case transform_all clock (Suc i) rest of
             Inl e \<Rightarrow> Inl e
           | Inr ds \<Rightarrow> Inr (d # ds)))"

definition fetchAllMeteoraLpDeals ::
  "(nat \<Rightarrow> int) \<Rightarrow> Program \<Rightarrow> DealFilters option \<Rightarrow> thrown + MeteoraLpDeal list" where
  "fetchAllMeteoraLpDeals clock program filters =
     (case meteoraLpDeal_all program of
        Inl e \<Rightarrow> Inl e
      | Inr accounts \<Rightarrow>
     (case transform_all clock 0 accounts of
        Inl e \<Rightarrow> Inl e
      | Inr deals \<Rightarrow>
          (case filters of None \<Rightarrow> Inr deals | Some f \<Rightarrow> apply_filters deals f)))"

definition no_filters :: DealFilters where
  "no_filters = \<lparr> f_status = None, f_seller = None, f_buyer = None, f_sourceProtocol = None,
                  f_minPrice = None, f_maxPrice = None \<rparr>"

definition fetchAvailableMeteoraLpDeals ::
  "(nat \<Rightarrow> int) \<Rightarrow> Program \<Rightarrow> thrown + MeteoraLpDeal list" where
  "fetchAvailableMeteoraLpDeals clock program =
     fetchAllMeteoraLpDeals clock program (Some (no_filters \<lparr> f_status := Some (One Created) \<rparr>))"


section \<open>Input validation (client.ts)\<close>








section \<open>Sample data\<close>



definition sample_program :: "thrown \<Rightarrow> Program" where
  "sample_program fault =
     \<lparr> programId = 7, meteoraLpDeal_fetch = (\<lambda>k. Inl fault), meteoraLpDeal_all = Inr [],
       protocolConfig_fetch = (\<lambda>k. Inl fault) \<rparr>"

definition sample_deriver :: address_deriver where
  "sample_deriver seeds program_id = Inr (of_nat (length seeds) + program_id, 255)"

definition sample_account :: "PublicKey \<Rightarrow> int \<Rightarrow> int \<Rightarrow> string list \<Rightarrow> MeteoraLpDealAccount" where
  "sample_account buyer' purchased ends tag =
     \<lparr> acc_dealId = 1, acc_bump = 254, acc_seller = 11, acc_buyer = buyer',
       acc_positionNftMint = 12, acc_positionAccount = 13, acc_positionNftVault = 14,
       acc_pool = 15, acc_tokenAMint = 16, acc_tokenBMint = 17,
       acc_feeAAtLock = 100000, acc_feeBAtLock = 200000, acc_expectedFeeA = 500000,
       acc_expectedFeeB = 1000000, acc_expectedFeeValueUsdc = 75000000,
       acc_sellingPrice = 60000000, acc_paymentMint = 18, acc_durationDays = 60,
       acc_createdAt = 1700000000, acc_purchasedAt = purchased, acc_endsAt = ends,
       acc_status = tag \<rparr>"

definition sample_deal ::
  "PublicKey option \<Rightarrow> js_Date option \<Rightarrow> js_Date option \<Rightarrow> DealStatus \<Rightarrow> bool \<Rightarrow> bool \<Rightarrow> MeteoraLpDeal" where
  "sample_deal buyer' purchased ends st available expired' =
     \<lparr> dealId = 1, bump = 254, pda = 99, seller = 11, buyer = buyer',
       positionNftMint = 12, positionAccount = 13, positionNftVault = 14,
       pool = 15, tokenAMint = 16, tokenBMint = 17,
       feeAAtLock = 100000, feeBAtLock = 200000, expectedFeeA = 500000,
       expectedFeeB = 1000000, expectedFeeValueUsdc = 75000000,
       sellingPrice = 60000000, paymentMint = 18, durationDays = 60,
       createdAt = Some (ValidDate 1700000000000), purchasedAt = purchased, endsAt = ends,
       status = st, isAvailable = available, isExpired = expired' \<rparr>"


section \<open>Properties of the amount codec\<close>

declare dec_digits.simps [simp del]

subsection \<open>Decimal notation\<close>

text \<open>\<open>dec_digits\<close> produces a non-empty string of digits, which \<open>BN_of_digits\<close> reads
  back; a number below \<open>10^d\<close> has at most \<open>d\<close> digits.\<close>

lemma digit_cases: "k < (10::nat) \<Longrightarrow> k \<in> {0, 1, 2, 3, 4, 5, 6, 7, 8, 9}"
  by auto

lemma is_digit_digit_char: "is_digit (digit_char n)"
proof -
  have "n mod 10 \<in> {0, 1, 2, 3, 4, 5, 6, 7, 8, 9}" by (rule digit_cases) simp
  then show ?thesis by (auto simp: is_digit_def digit_char_def)
qed

lemma digit_val_digit_char: "digit_val (digit_char n) = n mod 10"
proof -
  have "n mod 10 \<in> {0, 1, 2, 3, 4, 5, 6, 7, 8, 9}" by (rule digit_cases) simp
  then show ?thesis by (auto simp: digit_val_def digit_char_def)
qed

lemma dec_digits_all_digits: "list_all is_digit (dec_digits n)"
proof (induction n rule: dec_digits.induct)
  case (1 n)
  show ?case
  proof (cases "n < 10")
    case True
    then show ?thesis by (subst dec_digits.simps) (simp add: is_digit_digit_char)
  next
    case False
    with 1 show ?thesis by (subst dec_digits.simps) (simp add: is_digit_digit_char)
  qed
qed

lemma dec_digits_nonempty: "dec_digits n \<noteq> []"
  by (subst dec_digits.simps) simp

lemma foldl_digits_acc:
  "foldl (\<lambda>acc c. 10 * acc + digit_val c) a s = a * 10 ^ length s + foldl (\<lambda>acc c. 10 * acc + digit_val c) 0 s"
proof (induction s arbitrary: a)
  case Nil
  show ?case by simp
next
  case (Cons c cs)
  have "foldl (\<lambda>acc c. 10 * acc + digit_val c) a (c # cs) = foldl (\<lambda>acc c. 10 * acc + digit_val c) (10 * a + digit_val c) cs" by simp
  also have "\<dots> = (10 * a + digit_val c) * 10 ^ length cs + foldl (\<lambda>acc c. 10 * acc + digit_val c) 0 cs"
    by (rule Cons.IH)
  also have "foldl (\<lambda>acc c. 10 * acc + digit_val c) 0 (c # cs) = digit_val c * 10 ^ length cs + foldl (\<lambda>acc c. 10 * acc + digit_val c) 0 cs"
    using Cons.IH [of "digit_val c"] by simp
  ultimately show ?case by (simp add: algebra_simps)
qed

lemma BN_of_digits_append:
  "BN_of_digits (xs @ ys) = BN_of_digits xs * 10 ^ length ys + BN_of_digits ys"
  unfolding BN_of_digits_def
  by (simp add: foldl_digits_acc [of "foldl (\<lambda>acc c. 10 * acc + digit_val c) 0 xs" ys])

lemma BN_of_digits_dec_digits: "BN_of_digits (dec_digits n) = int n"
proof (induction n rule: dec_digits.induct)
  case (1 n)
  show ?case
  proof (cases "n < 10")
    case True
    then show ?thesis
      by (subst dec_digits.simps) (simp add: BN_of_digits_def digit_val_digit_char)
  next
    case False
    have "BN_of_digits (dec_digits n) = BN_of_digits (dec_digits (n div 10) @ [digit_char (n mod 10)])"
      using False by (subst dec_digits.simps) simp
    also have "\<dots> = int (n div 10) * 10 + int (n mod 10)"
      using 1 False by (simp add: BN_of_digits_append) (simp add: BN_of_digits_def digit_val_digit_char)
    also have "\<dots> = int (n div 10 * 10 + n mod 10)"
      by (simp only: of_nat_add of_nat_mult of_nat_numeral)
    also have "\<dots> = int n"
      by (simp only: div_mult_mod_eq)
    finally show ?thesis .
  qed
qed

lemma length_dec_digits: "0 < d \<Longrightarrow> n < 10 ^ d \<Longrightarrow> length (dec_digits n) \<le> d"
proof (induction n arbitrary: d rule: dec_digits.induct)
  case (1 n)
  show ?case
  proof (cases "n < 10")
    case True
    then show ?thesis using 1(2) by (subst dec_digits.simps) simp
  next
    case False
    then obtain d' where d: "d = Suc d'" using 1(2) by (cases d) auto
    have "d' \<noteq> 0" using False 1(3) d by (cases d') auto
    moreover have "n div 10 < 10 ^ d'" using 1(3) d by (simp add: less_mult_imp_div_less mult.commute)
    ultimately have "length (dec_digits (n div 10)) \<le> d'" using 1(1) [of d'] False by simp
    then show ?thesis using False d by (subst dec_digits.simps) simp
  qed
qed

lemma BN_of_digits_zeros: "BN_of_digits (replicate k (CHR ''0'') @ s) = BN_of_digits s"
proof -
  have "BN_of_digits (replicate k (CHR ''0'')) = 0"
    by (induction k) (simp_all add: BN_of_digits_def digit_val_def)
  then show ?thesis by (simp add: BN_of_digits_append)
qed

subsection \<open>Trimming and the amount pattern\<close>

text \<open>The matcher accepts exactly the strings of the pattern: a non-empty run of digits,
  optionally followed by a point and another non-empty run of digits, and its groups are
  those runs.\<close>

lemma digit_not_whitespace: "is_digit c \<Longrightarrow> \<not> is_whitespace c"
  by (auto simp: is_digit_def is_whitespace_def)

lemma trim_id:
  assumes "s \<noteq> []" "\<not> is_whitespace (hd s)" "\<not> is_whitespace (last s)"
  shows "trim s = s"
proof -
  have "dropWhile is_whitespace s = s"
    using assms(1,2) by (cases s) simp_all
  moreover have "dropWhile is_whitespace (rev s) = rev s"
    using assms(1,3) by (cases "rev s") (simp_all add: last_rev [symmetric] hd_rev del: last_rev)
  ultimately show ?thesis by (simp add: trim_def)
qed

lemma AMOUNT_PATTERN_fraction:
  assumes "i \<noteq> []" "list_all is_digit i" "f \<noteq> []" "list_all is_digit f"
  shows "AMOUNT_PATTERN (i @ CHR ''.'' # f) = Some (i, Some f)"
proof -
  have nd: "\<not> is_digit (CHR ''.'')" by (simp add: is_digit_def)
  have all: "\<And>x. x \<in> set i \<Longrightarrow> is_digit x" using assms(2) by (simp add: list_all_iff)
  have t: "takeWhile is_digit (i @ CHR ''.'' # f) = i"
    using nd all by (simp add: takeWhile_tail)
  have d: "dropWhile is_digit (i @ CHR ''.'' # f) = CHR ''.'' # f"
    using nd all by (simp add: dropWhile_append2)
  show ?thesis using assms(1,3,4) by (simp add: AMOUNT_PATTERN_def t d)
qed

lemma sdiv_nonneg: "0 \<le> a \<Longrightarrow> 0 < b \<Longrightarrow> a sdiv b = a div (b::int)"
  by (cases "a = 0") (simp_all add: signed_divide_int_def)

lemma smod_nonneg: "0 \<le> a \<Longrightarrow> 0 < b \<Longrightarrow> a smod b = a mod (b::int)"
  by (cases "a = 0") (simp_all add: signed_modulo_int_def)

lemma AMOUNT_PATTERN_whole:
  assumes "i \<noteq> []" "list_all is_digit i"
  shows "AMOUNT_PATTERN i = Some (i, None)"
proof -
  have all: "\<And>x. x \<in> set i \<Longrightarrow> is_digit x" using assms(2) by (simp add: list_all_iff)
  have t: "takeWhile is_digit i = i" using all by simp
  have d: "dropWhile is_digit i = []" using all by simp
  show ?thesis using assms(1) by (simp add: AMOUNT_PATTERN_def t d)
qed

lemma AMOUNT_PATTERN_Some:
  assumes "AMOUNT_PATTERN s = Some (i, f)"
  shows "i \<noteq> [] \<and> list_all is_digit i \<and>
         (case f of None \<Rightarrow> s = i
          | Some fs \<Rightarrow> fs \<noteq> [] \<and> list_all is_digit fs \<and> s = i @ CHR ''.'' # fs)"
proof -
  define t where "t = takeWhile is_digit s"
  define r where "r = dropWhile is_digit s"
  have split: "s = t @ r" by (simp add: t_def r_def)
  have digs: "list_all is_digit t"
    unfolding t_def list_all_iff by (auto dest: set_takeWhileD)
  have ap: "AMOUNT_PATTERN s =
      (if t = [] then None
       else case r of [] \<Rightarrow> Some (t, None)
            | c # fp \<Rightarrow> if c = CHR ''.'' \<and> fp \<noteq> [] \<and> list_all is_digit fp
                        then Some (t, Some fp) else None)"
    unfolding AMOUNT_PATTERN_def Let_def t_def r_def ..
  show ?thesis
  proof (cases r)
    case Nil
    then have "i = t" "f = None" "t \<noteq> []" using assms ap by (simp_all split: if_splits)
    then show ?thesis using digs split Nil by simp
  next
    case (Cons c fp)
    then have "i = t \<and> f = Some fp \<and> t \<noteq> [] \<and> c = CHR ''.'' \<and> fp \<noteq> [] \<and> list_all is_digit fp"
      using assms ap by (simp split: if_splits)
    then show ?thesis using digs split Cons by simp
  qed
qed

subsection \<open>The round trip\<close>

lemma dec_digits_234567: "dec_digits 234567 = ''234567''"
  by (simp add: dec_digits.simps digit_char_def)

lemma dec_digits_2: "dec_digits 2 = ''2''"
  by (simp add: dec_digits.simps digit_char_def)

lemma dec_digits_100: "dec_digits 100 = ''100''"
  by (simp add: dec_digits.simps digit_char_def)

lemma formatAmount_2234567: "formatAmount 2234567 6 = ''2.234567''"
proof -
  have q: "(2234567::int) sdiv 10 ^ 6 = 2" by (simp add: signed_divide_int_def)
  have r: "(2234567::int) smod 10 ^ 6 = 234567" by (simp add: signed_modulo_int_def)
  show ?thesis
    unfolding formatAmount_def Let_def q r
    by (simp add: BN_toString_def dec_digits_234567 dec_digits_2 padStart_def)
qed

text \<open>
  Claim C2.  For every non-negative amount \<open>a\<close> and every decimal count \<open>d\<close>, parsing the
  string that \<open>formatAmount a d\<close> renders, with the same decimal count, gives \<open>a\<close> back.
\<close>

theorem parseAmount_formatAmount_roundtrip:
  assumes a: "0 \<le> a"
  shows "parseAmount (formatAmount a d) (Finite (of_nat d)) = Inr a"
proof -
  define ip where "ip = dec_digits (nat (a div 10 ^ d))"
  define fs where "fs = dec_digits (nat (a mod 10 ^ d))"
  define fp where "fp = padStart fs d (CHR ''0'')"
  have pos: "(0::int) < 10 ^ d" by simp
  have q: "0 \<le> a div 10 ^ d" using a by (simp add: pos_imp_zdiv_nonneg_iff)
  have r: "0 \<le> a mod 10 ^ d" by simp
  have nn: "\<not> a div 10 ^ d < 0" "\<not> a mod 10 ^ d < 0"
    using q r by linarith+
  have fmt: "formatAmount a d = ip @ CHR ''.'' # fp"
    using a nn by (simp add: formatAmount_def Let_def sdiv_nonneg smod_nonneg BN_toString_def ip_def fs_def fp_def)
  have ip_d: "list_all is_digit ip" "ip \<noteq> []"
    by (simp_all add: ip_def dec_digits_all_digits dec_digits_nonempty)
  have fs_d: "list_all is_digit fs" "fs \<noteq> []"
    by (simp_all add: fs_def dec_digits_all_digits dec_digits_nonempty)
  have fp_d: "list_all is_digit fp" "fp \<noteq> []"
    using fs_d by (auto simp: fp_def padStart_def is_digit_def list_all_iff)
  have fp_val: "BN_of_digits fp = a mod 10 ^ d"
    using r by (simp add: fp_def padStart_def BN_of_digits_zeros fs_def BN_of_digits_dec_digits)
  have ip_val: "BN_of_digits ip = a div 10 ^ d"
    using q by (simp add: ip_def BN_of_digits_dec_digits)
  have hd_ok: "\<not> is_whitespace (hd (ip @ CHR ''.'' # fp))"
    using ip_d by (cases ip) (simp_all add: digit_not_whitespace)
  have last_ok: "\<not> is_whitespace (last (ip @ CHR ''.'' # fp))"
    using fp_d by (cases fp rule: rev_cases) (simp_all add: digit_not_whitespace)
  have tr: "trim (formatAmount a d) = ip @ CHR ''.'' # fp"
    unfolding fmt using hd_ok last_ok by (intro trim_id) simp_all
  have pat: "AMOUNT_PATTERN (ip @ CHR ''.'' # fp) = Some (ip, Some fp)"
    using ip_d fp_d by (intro AMOUNT_PATTERN_fraction)
  have padded: "BN_of_digits (ip @ take d (padEnd fp d (CHR ''0''))) = a"
  proof (cases "d = 0")
    case True
    then show ?thesis using ip_val by simp
  next
    case False
    have "nat (a mod 10 ^ d) < 10 ^ d"
      using pos by (metis r nat_less_iff of_nat_numeral of_nat_power pos_mod_bound)
    then have "length fs \<le> d" using False by (simp add: fs_def length_dec_digits)
    then have len: "length fp = d" by (simp add: fp_def padStart_def)
    then have "take d (padEnd fp d (CHR ''0'')) = fp" by (simp add: padEnd_def)
    then have "BN_of_digits (ip @ take d (padEnd fp d (CHR ''0''))) =
        a div 10 ^ d * 10 ^ length fp + a mod 10 ^ d"
      by (simp add: BN_of_digits_append ip_val fp_val)
    also have "\<dots> = a div 10 ^ d * 10 ^ d + a mod 10 ^ d"
      by (simp only: len)
    also have "\<dots> = a"
      by (rule div_mult_mod_eq)
    finally show ?thesis .
  qed
  show ?thesis
    using padded by (simp add: parseAmount_def tr pat Let_def)
qed

text \<open>The round trip at the amount 2234567 with six decimals, rendered as 2.234567.\<close>

theorem parseAmount_formatAmount_roundtrip_witness:
  "(0::int) \<le> 2234567 \<and> formatAmount 2234567 6 = ''2.234567'' \<and>
   parseAmount ''2.234567'' (Finite (of_nat 6)) = Inr 2234567"
  using parseAmount_formatAmount_roundtrip [of 2234567 6] formatAmount_2234567 by simp

text \<open>
  What \<open>toBN\<close> does on each kind of input: a negative native number is refused with the
  negative-value error, a non-negative one below \<open>2^53\<close> is converted, one from \<open>2^53\<close> up
  is refused by the \<open>BN\<close> constructor, and an arbitrary-precision input is handed back as
  it is.
\<close>

lemma toBN_cases:
  "(n < 0 \<longrightarrow> toBN (Num n) =
       Inl (new_Error (''Cannot convert negative number to BN: '' @ Number_toString n))) \<and>
   (0 \<le> n \<and> n < 2 ^ 53 \<longrightarrow> toBN (Num n) = Inr n) \<and>
   (2 ^ 53 \<le> n \<longrightarrow> toBN (Num n) = Inl (new_Error ''Assertion failed'')) \<and>
   toBN (Bn b) = Inr b"
proof (intro conjI impI)
  assume "n < 0"
  then show "toBN (Num n) =
      Inl (new_Error (''Cannot convert negative number to BN: '' @ Number_toString n))"
    by (simp add: toBN_def)
next
  assume "0 \<le> n \<and> n < 2 ^ 53"
  then show "toBN (Num n) = Inr n"
    by (simp add: toBN_def new_BN_def)
next
  assume "2 ^ 53 \<le> n"
  then show "toBN (Num n) = Inl (new_Error ''Assertion failed'')"
    by (simp add: toBN_def new_BN_def)
next
  show "toBN (Bn b) = Inr b"
    by (simp add: toBN_def)
qed

lemma toBN_examples:
  "toBN (Num (- 100)) = Inl (Thrown Error ''Cannot convert negative number to BN: -100'' None None None) \<and>
   toBN (Num 100) = Inr 100 \<and> toBN (Bn 100) = Inr 100 \<and>
   toBN (Num 9007199254740992) = Inl (Thrown Error ''Assertion failed'' None None None)"
proof -
  have s: "Number_toString (- 100) = ''-100''"
    by (simp add: Number_toString_def dec_digits_100)
  show ?thesis
    using toBN_cases [of "- 100" 100] toBN_cases [of 100 100]
      toBN_cases [of 9007199254740992 100] s
    by (simp add: new_Error_def)
qed

text \<open>
  Claim C7.  \<open>toBN\<close> is documented to throw when the value is negative, and the claim asks
  for that on native numbers and on arbitrary-precision values alike.  The sign is tested
  on the native-number path only: at the arbitrary-precision value \<open>-1\<close> the function
  returns the value and raises nothing.
\<close>

theorem toBN_negative_BN_returned:
  "toBN (Bn (- 1)) = Inr (- 1)"
  by (simp add: toBN_def)

text \<open>
  Claim C10.  \<open>parseAmount\<close> checks the format of the string before the decimal count: a
  string that is empty after trimming or fails the pattern raises
  \<open>InvalidAmountFormatError\<close> whatever the decimal count is, and the invalid-decimals error
  is raised only for a well-formed string (and then because the count is negative or not an
  integer).
\<close>

theorem parseAmount_format_before_decimals:
  "(trim v = [] \<or> AMOUNT_PATTERN (trim v) = None \<longrightarrow>
      parseAmount v d = Inl (InvalidAmountFormatError v)) \<and>
   (parseAmount v d = Inl (InvalidDecimals x) \<longrightarrow>
      trim v \<noteq> [] \<and> AMOUNT_PATTERN (trim v) \<noteq> None \<and> x = d \<and>
      (number_lt_zero d \<or> \<not> Number_isInteger d))"
proof (rule conjI)
  show "trim v = [] \<or> AMOUNT_PATTERN (trim v) = None \<longrightarrow>
      parseAmount v d = Inl (InvalidAmountFormatError v)"
    by (auto simp: parseAmount_def Let_def)
next
  show "parseAmount v d = Inl (InvalidDecimals x) \<longrightarrow>
      trim v \<noteq> [] \<and> AMOUNT_PATTERN (trim v) \<noteq> None \<and> x = d \<and>
      (number_lt_zero d \<or> \<not> Number_isInteger d)"
  proof
    assume e: "parseAmount v d = Inl (InvalidDecimals x)"
    have t: "trim v \<noteq> []"
    proof
      assume "trim v = []"
      then have "parseAmount v d = Inl (InvalidAmountFormatError v)"
        by (simp add: parseAmount_def Let_def)
      then show False using e by simp
    qed
    have m: "AMOUNT_PATTERN (trim v) \<noteq> None"
    proof
      assume "AMOUNT_PATTERN (trim v) = None"
      then have "parseAmount v d = Inl (InvalidAmountFormatError v)"
        by (simp add: parseAmount_def Let_def)
      then show False using e by simp
    qed
    then obtain i f where "AMOUNT_PATTERN (trim v) = Some (i, f)"
      by auto
    then have "x = d \<and> (number_lt_zero d \<or> \<not> Number_isInteger d)"
      using e t by (auto simp: parseAmount_def Let_def split: if_splits)
    then show "trim v \<noteq> [] \<and> AMOUNT_PATTERN (trim v) \<noteq> None \<and> x = d \<and>
      (number_lt_zero d \<or> \<not> Number_isInteger d)"
      using t m by simp
  qed
qed

text \<open>A malformed string with a negative count, a blank string with \<open>NaN\<close>, and a
  well-formed string with the count \<open>3/2\<close>.\<close>

theorem parseAmount_format_before_decimals_witness:
  "parseAmount ''-100'' (Finite (- 1)) = Inl (InvalidAmountFormatError ''-100'') \<and>
   parseAmount ''   '' NaN = Inl (InvalidAmountFormatError ''   '') \<and>
   parseAmount ''100'' (Finite (3 / 2)) = Inl (InvalidDecimals (Finite (3 / 2))) \<and>
   trim ''100'' \<noteq> [] \<and> AMOUNT_PATTERN (trim ''100'') \<noteq> None"
proof -
  have a: "AMOUNT_PATTERN (trim ''-100'') = None"
    by code_simp
  have b: "trim ''   '' = []"
    by code_simp
  have c: "parseAmount ''100'' (Finite (3 / 2)) = Inl (InvalidDecimals (Finite (3 / 2)))"
    by code_simp
  show ?thesis
    using parseAmount_format_before_decimals [of "''-100''" "Finite (- 1)"] a
      parseAmount_format_before_decimals [of "''   ''" NaN] b
      parseAmount_format_before_decimals [of "''100''" "Finite (3 / 2)" "Finite (3 / 2)"] c
    by simp
qed

section \<open>Properties of input validation\<close>




lemma str_includes_imp_infix: "str_includes xs n \<Longrightarrow> \<exists>p s. xs = p @ n @ s"
proof (induction xs)
  case Nil
  then show ?case by simp
next
  case (Cons c cs)
  have sw: "\<And>xs. starts_with xs n \<Longrightarrow> \<exists>s. xs = n @ s"
  proof -
    fix xs show "starts_with xs n \<Longrightarrow> \<exists>s. xs = n @ s"
      by (induction xs n rule: starts_with.induct) auto
  qed
  from Cons.prems have "starts_with (c # cs) n \<or> str_includes cs n" by simp
  then show ?case
  proof
    assume "starts_with (c # cs) n"
    then obtain s where "c # cs = n @ s" using sw by blast
    then have "c # cs = [] @ n @ s" by simp
    then show ?thesis by blast
  next
    assume "str_includes cs n"
    then obtain p s where "cs = p @ n @ s" using Cons.IH by blast
    then have "c # cs = (c # p) @ n @ s" by simp
    then show ?thesis by blast
  qed
qed










section \<open>Properties of fetching\<close>

text \<open>
  Claim C4.  For the fetch by id and the fetch by address: when the transport rejects with
  a fault that \<open>isAccountNotFoundError\<close> recognises, the fetch returns the absent value;
  for every other fault it fails with a \<open>FetchError\<close> whose cause is that fault.
\<close>

theorem fetch_single_record_fault:
  assumes "meteoraLpDeal_fetch program dealPda = Inl fault"
    and "findMeteoraLpDealPDA findProgramAddressSync dealId' (programId program) = Inr (dealPda, b)"
  shows "(isAccountNotFoundError fault \<longrightarrow>
            fetchMeteoraLpDeal findProgramAddressSync now program dealId' = Inr None \<and>
            fetchMeteoraLpDealByPda toBase58 now program dealPda = Inr None) \<and>
         (\<not> isAccountNotFoundError fault \<longrightarrow>
            fetchMeteoraLpDeal findProgramAddressSync now program dealId' =
              Inl (Thrown FetchError
                     (''Failed to fetch account: MeteoraLpDeal '' @ dealId_toString dealId')
                     None None (Some fault)) \<and>
            fetchMeteoraLpDealByPda toBase58 now program dealPda =
              Inl (Thrown FetchError
                     (''Failed to fetch account: MeteoraLpDeal at '' @ toBase58 dealPda)
                     None None (Some fault)))"
  using assms
  by (simp add: fetchMeteoraLpDeal_def fetchMeteoraLpDealByPda_def on_fetch_fault_def
      new_FetchError_def Let_def)

lemma dec_digits_42: "dec_digits 42 = ''42''"
  by (simp add: dec_digits.simps digit_char_def)

lemma not_found_sample: "isAccountNotFoundError (new_Error ''Account does not exist or has no data'')"
  by code_simp

lemma timeout_sample: "\<not> isAccountNotFoundError (new_Error ''Network timeout'')"
  by code_simp

lemma sample_pda: "findMeteoraLpDealPDA sample_deriver (Num 42) 7 = Inr (9, 255)"
  by (simp add: findMeteoraLpDealPDA_def new_BN_def toArrayLike_le8_def sample_deriver_def)

text \<open>A transport that answers "Account does not exist or has no data", and one that
  answers "Network timeout".\<close>

theorem fetch_single_record_fault_witness:
  "fetchMeteoraLpDeal sample_deriver 0
       (sample_program (new_Error ''Account does not exist or has no data'')) (Num 42) = Inr None \<and>
   fetchMeteoraLpDealByPda (\<lambda>k. ''key'') 0
       (sample_program (new_Error ''Account does not exist or has no data'')) 9 = Inr None \<and>
   fetchMeteoraLpDeal sample_deriver 0 (sample_program (new_Error ''Network timeout'')) (Num 42) =
     Inl (Thrown FetchError ''Failed to fetch account: MeteoraLpDeal 42'' None None
            (Some (new_Error ''Network timeout''))) \<and>
   fetchMeteoraLpDealByPda (\<lambda>k. ''key'') 0 (sample_program (new_Error ''Network timeout'')) 9 =
     Inl (Thrown FetchError ''Failed to fetch account: MeteoraLpDeal at key'' None None
            (Some (new_Error ''Network timeout'')))"
proof -
  have p: "\<And>f. findMeteoraLpDealPDA sample_deriver (Num 42) (programId (sample_program f)) = Inr (9, 255)"
    using sample_pda by (simp add: sample_program_def)
  have q: "\<And>f. meteoraLpDeal_fetch (sample_program f) 9 = Inl f"
    by (simp add: sample_program_def)
  show ?thesis
    using fetch_single_record_fault [OF q p, of "new_Error ''Account does not exist or has no data''" 0 "\<lambda>k. ''key''"]
      fetch_single_record_fault [OF q p, of "new_Error ''Network timeout''" 0 "\<lambda>k. ''key''"]
      not_found_sample timeout_sample
    by (simp add: dealId_toString_def Number_toString_def dec_digits_42)
qed

text \<open>
  Claim C9.  When the configuration fetch returns the absent value, as it does when the
  transport reports that the configuration record does not exist, \<open>isPaused\<close> returns
  false and does not fail.
\<close>

theorem isPaused_uninitialized:
  "(fetchProtocolConfig findProgramAddressSync program = Inr None \<longrightarrow>
      RFlowClient_isPaused findProgramAddressSync program = Inr False) \<and>
   (findProtocolConfigPDA findProgramAddressSync (programId program) = Inr (configPda, b) \<and>
    protocolConfig_fetch program configPda = Inl fault \<and> isAccountNotFoundError fault \<longrightarrow>
      fetchProtocolConfig findProgramAddressSync program = Inr None \<and>
      RFlowClient_isPaused findProgramAddressSync program = Inr False)"
proof (rule conjI)
  show "fetchProtocolConfig findProgramAddressSync program = Inr None \<longrightarrow>
      RFlowClient_isPaused findProgramAddressSync program = Inr False"
    by (simp add: RFlowClient_isPaused_def getConfig_def)
next
  show "findProtocolConfigPDA findProgramAddressSync (programId program) = Inr (configPda, b) \<and>
    protocolConfig_fetch program configPda = Inl fault \<and> isAccountNotFoundError fault \<longrightarrow>
      fetchProtocolConfig findProgramAddressSync program = Inr None \<and>
      RFlowClient_isPaused findProgramAddressSync program = Inr False"
  proof
    assume h: "findProtocolConfigPDA findProgramAddressSync (programId program) = Inr (configPda, b) \<and>
      protocolConfig_fetch program configPda = Inl fault \<and> isAccountNotFoundError fault"
    then have absent: "fetchProtocolConfig findProgramAddressSync program = Inr None"
      by (simp add: fetchProtocolConfig_def on_fetch_fault_def)
    then show "fetchProtocolConfig findProgramAddressSync program = Inr None \<and>
      RFlowClient_isPaused findProgramAddressSync program = Inr False"
      by (simp add: RFlowClient_isPaused_def getConfig_def)
  qed
qed

text \<open>A transport that reports the configuration record as not existing.\<close>

theorem isPaused_uninitialized_witness:
  "fetchProtocolConfig sample_deriver
       (sample_program (new_Error ''Account does not exist or has no data'')) = Inr None \<and>
   RFlowClient_isPaused sample_deriver
       (sample_program (new_Error ''Account does not exist or has no data'')) = Inr False"
proof -
  let ?p = "sample_program (new_Error ''Account does not exist or has no data'')"
  have a: "findProtocolConfigPDA sample_deriver (programId ?p) = Inr (8, 255)"
    by (simp add: findProtocolConfigPDA_def sample_deriver_def sample_program_def)
  have b: "protocolConfig_fetch ?p 8 = Inl (new_Error ''Account does not exist or has no data'')"
    by (simp add: sample_program_def)
  show ?thesis
    using isPaused_uninitialized [of sample_deriver ?p 8 255
        "new_Error ''Account does not exist or has no data''"] a b not_found_sample
    by simp
qed

section \<open>Properties of the error classifier\<close>

lemma dec_digits_123: "dec_digits 123 = ''123''"
  by (simp add: dec_digits.simps digit_char_def)

lemma dec_digits_9: "dec_digits 9 = ''9''"
  by (simp add: dec_digits.simps digit_char_def)

lemma deal_123_message:
  "new_DealNotAvailableError (IdNumber 123) =
     Thrown DealNotAvailableError ''Deal 123 is not available for purchase'' (Some 6004) None None"
  by (simp add: new_DealNotAvailableError_def Number_toString_def dec_digits_123)

text \<open>
  Claim C5, as stated, fails: the classifier reads the first run of digits of the message,
  so a message that contains 123 after an earlier run yields another deal id.
\<close>

theorem parseAnchorError_deal_not_available_counterexample:
  "str_includes ''slot 9: deal 123 is taken'' ''123'' \<and>
   parseAnchorError (Descriptor (Some 6004) (Some ''slot 9: deal 123 is taken'') None None) None =
     Thrown DealNotAvailableError ''Deal 9 is not available for purchase'' (Some 6004) None None \<and>
   \<not> str_includes ''Deal 9 is not available for purchase'' ''123''"
proof -
  have a: "str_includes ''slot 9: deal 123 is taken'' ''123''" by code_simp
  have b: "\<not> str_includes ''Deal 9 is not available for purchase'' ''123''" by code_simp
  have c: "extractNumberFromMessage ''slot 9: deal 123 is taken'' = Some 9" by code_simp
  have d: "effective_message (Some ''slot 9: deal 123 is taken'') None = ''slot 9: deal 123 is taken''"
    by (simp add: effective_message_def)
  have "parseAnchorError (Descriptor (Some 6004) (Some ''slot 9: deal 123 is taken'') None None) None =
     new_DealNotAvailableError (IdNumber 9)"
    unfolding parseAnchorError_def fault.case Let_def d c
    by (simp add: context_dealId_def)
  then show ?thesis using a b
    by (simp add: new_DealNotAvailableError_def Number_toString_def dec_digits_9)
qed

text \<open>
  Claim C5, amended.  For every fault descriptor with code 6004: without a deal id in the
  context, when the first run of decimal digits of its message denotes 123, the classifier
  returns the \<open>DealNotAvailableError\<close> for deal 123, whose message contains 123; with the
  deal id 123 in the context it returns the same error whatever the message is.
\<close>

theorem parseAnchorError_deal_not_available:
  "(context_dealId context = None \<and>
    extractNumberFromMessage (effective_message msg message') = Some 123 \<longrightarrow>
      parseAnchorError (Descriptor (Some 6004) msg message' logs) context =
        Thrown DealNotAvailableError ''Deal 123 is not available for purchase'' (Some 6004) None None) \<and>
   (context_dealId context = Some (IdNumber 123) \<longrightarrow>
      parseAnchorError (Descriptor (Some 6004) msg message' logs) context =
        Thrown DealNotAvailableError ''Deal 123 is not available for purchase'' (Some 6004) None None) \<and>
   str_includes ''Deal 123 is not available for purchase'' ''123''"
proof -
  have s: "str_includes ''Deal 123 is not available for purchase'' ''123''" by code_simp
  show ?thesis using s
    by (simp add: parseAnchorError_def Let_def deal_123_message)
qed

text \<open>The message "Deal 123 is not available" without context, and a message without
  digits with the context deal id 123.\<close>

theorem parseAnchorError_deal_not_available_witness:
  "parseAnchorError (Descriptor (Some 6004) (Some ''Deal 123 is not available'') None None) None =
     Thrown DealNotAvailableError ''Deal 123 is not available for purchase'' (Some 6004) None None \<and>
   parseAnchorError (Descriptor (Some 6004) (Some ''Deal not available'') None None)
       (Some \<lparr> ctx_dealId = Some (IdNumber 123), ctx_duration = None, ctx_operation = None \<rparr>) =
     Thrown DealNotAvailableError ''Deal 123 is not available for purchase'' (Some 6004) None None"
proof -
  have c: "extractNumberFromMessage (effective_message (Some ''Deal 123 is not available'') None) = Some 123"
    by code_simp
  show ?thesis
    using parseAnchorError_deal_not_available [of None "Some ''Deal 123 is not available''" None None]
      parseAnchorError_deal_not_available
        [of "Some \<lparr> ctx_dealId = Some (IdNumber 123), ctx_duration = None, ctx_operation = None \<rparr>"
            "Some ''Deal not available''" None None] c
    by (simp add: context_dealId_def)
qed

section \<open>Properties of the record transformer\<close>

lemma sample_created:
  "transformMeteoraLpDeal now (sample_account 0 0 0 [''created'']) 99 =
     Inr (sample_deal None None None Created True False)"
  by (simp add: transformMeteoraLpDeal_def sample_account_def sample_deal_def
      fromAnchorDealStatus_def bnToDate_def BN_toNumber_def new_Date_def PublicKey_default_def)

lemma sample_cancelled:
  "transformMeteoraLpDeal now (sample_account 0 0 0 [''cancelled'']) 99 =
     Inr (sample_deal None None None Cancelled False False)"
  by (simp add: transformMeteoraLpDeal_def sample_account_def sample_deal_def
      fromAnchorDealStatus_def bnToDate_def BN_toNumber_def new_Date_def PublicKey_default_def)

lemma sample_half:
  "transformMeteoraLpDeal 1800000000000 (sample_account 5 0 1700000200 [''active'']) 99 =
     Inr (sample_deal (Some 5) None (Some (ValidDate 1700000200000)) Active False True)"
  by (simp add: transformMeteoraLpDeal_def sample_account_def sample_deal_def
      fromAnchorDealStatus_def bnToDate_def BN_toNumber_def new_Date_def PublicKey_default_def)

lemma sample_active:
  "transformMeteoraLpDeal 1800000000000 (sample_account 5 1700000100 1700000200 [''active'']) 99 =
     Inr (sample_deal (Some 5) (Some (ValidDate 1700000100000)) (Some (ValidDate 1700000200000))
            Active False True)"
  by (simp add: transformMeteoraLpDeal_def sample_account_def sample_deal_def
      fromAnchorDealStatus_def bnToDate_def BN_toNumber_def new_Date_def PublicKey_default_def)

lemma sample_unpurchased_active:
  "transformMeteoraLpDeal 1800000000000 (sample_account 0 1700000100 1700000200 [''active'']) 99 =
     Inr (sample_deal None (Some (ValidDate 1700000100000)) (Some (ValidDate 1700000200000))
            Active False True)"
  by (simp add: transformMeteoraLpDeal_def sample_account_def sample_deal_def
      fromAnchorDealStatus_def bnToDate_def BN_toNumber_def new_Date_def PublicKey_default_def)

text \<open>
  Claim C1, as stated, fails: a cancelled deal that was never bought has the default buyer
  and is not available, and the times are decoded whatever the buyer is.
\<close>

theorem transform_default_buyer_counterexample:
  "acc_buyer (sample_account 0 0 0 [''cancelled'']) = PublicKey_default \<and>
   transformMeteoraLpDeal 1800000000000 (sample_account 0 0 0 [''cancelled'']) 99 =
     Inr (sample_deal None None None Cancelled False False) \<and>
   \<not> isAvailable (sample_deal None None None Cancelled False False) \<and>
   acc_buyer (sample_account 0 1700000100 1700000200 [''active'']) = PublicKey_default \<and>
   transformMeteoraLpDeal 1800000000000 (sample_account 0 1700000100 1700000200 [''active'']) 99 =
     Inr (sample_deal None (Some (ValidDate 1700000100000)) (Some (ValidDate 1700000200000))
            Active False True) \<and>
   isExpired (sample_deal None (Some (ValidDate 1700000100000)) (Some (ValidDate 1700000200000))
            Active False True)"
  using sample_cancelled [of 1800000000000] sample_unpurchased_active
  by (simp add: sample_account_def sample_deal_def PublicKey_default_def)

lemma bnToDate_None_iff: "bnToDate ts = Inr r \<Longrightarrow> (r = None) = (ts = 0)"
  by (auto simp: bnToDate_def BN_toNumber_def split: if_splits)

lemma bnToDate_total: "\<bar>ts\<bar> < 2 ^ 53 \<Longrightarrow> bnToDate ts = Inr (if ts = 0 then None else Some (new_Date (ts * 1000)))"
  by (simp add: bnToDate_def BN_toNumber_def)

lemma fromAnchorDealStatus_Created:
  "fromAnchorDealStatus st = Inr s \<Longrightarrow> (s = Created) = (''created'' \<in> set st)"
  by (auto simp: fromAnchorDealStatus_def split: if_splits)

lemma transformMeteoraLpDeal_Inr:
  assumes "transformMeteoraLpDeal now account k = Inr d"
  shows "fromAnchorDealStatus (acc_status account) = Inr (status d)"
    and "bnToDate (acc_endsAt account) = Inr (endsAt d)"
    and "bnToDate (acc_purchasedAt account) = Inr (purchasedAt d)"
    and "bnToDate (acc_createdAt account) = Inr (createdAt d)"
    and "buyer d = (if acc_buyer account = PublicKey_default then None else Some (acc_buyer account))"
    and "isAvailable d = (status d = Created)"
    and "isExpired d = expired (endsAt d) now"
  using assms
  by (auto simp: transformMeteoraLpDeal_def Let_def split: sum.splits)

lemma transformMeteoraLpDeal_fresh:
  assumes "''created'' \<in> set (acc_status account)"
    and "\<bar>acc_dealId account\<bar> < 2 ^ 53" and "\<bar>acc_createdAt account\<bar> < 2 ^ 53"
    and "acc_purchasedAt account = 0" and "acc_endsAt account = 0"
  shows "\<exists>d. transformMeteoraLpDeal now account k = Inr d"
  using assms
  by (simp add: transformMeteoraLpDeal_def Let_def fromAnchorDealStatus_def bnToDate_total
      BN_toNumber_def)

text \<open>
  Claim C1, amended.  For every raw record with the default buyer that decodes: the buyer is
  absent; \<open>purchasedAt\<close> (\<open>endsAt\<close>) is absent exactly when the raw purchase (end) time is
  zero; \<open>isAvailable\<close> holds exactly when the status tag is \<open>created\<close>; \<open>isExpired\<close> is
  false when the raw end time is zero.  In particular a raw record with the default buyer,
  zero purchase and end times, the status tag \<open>created\<close> and an identifier and creation
  time within 53 bits decodes, to an entity with buyer, \<open>purchasedAt\<close> and \<open>endsAt\<close>
  absent, \<open>isAvailable\<close> true and \<open>isExpired\<close> false.
\<close>

theorem transform_default_buyer:
  "(transformMeteoraLpDeal now account k = Inr d \<and> acc_buyer account = PublicKey_default \<longrightarrow>
      buyer d = None \<and>
      (purchasedAt d = None \<longleftrightarrow> acc_purchasedAt account = 0) \<and>
      (endsAt d = None \<longleftrightarrow> acc_endsAt account = 0) \<and>
      (isAvailable d \<longleftrightarrow> ''created'' \<in> set (acc_status account)) \<and>
      (acc_endsAt account = 0 \<longrightarrow> \<not> isExpired d)) \<and>
   (acc_buyer account = PublicKey_default \<and> acc_purchasedAt account = 0 \<and>
    acc_endsAt account = 0 \<and> ''created'' \<in> set (acc_status account) \<and>
    \<bar>acc_dealId account\<bar> < 2 ^ 53 \<and> \<bar>acc_createdAt account\<bar> < 2 ^ 53 \<longrightarrow>
      (\<exists>d'. transformMeteoraLpDeal now account k = Inr d' \<and> buyer d' = None \<and>
            purchasedAt d' = None \<and> endsAt d' = None \<and> isAvailable d' \<and> \<not> isExpired d'))"
proof (intro conjI impI)
  assume h: "transformMeteoraLpDeal now account k = Inr d \<and> acc_buyer account = PublicKey_default"
  note f = transformMeteoraLpDeal_Inr [OF conjunct1 [OF h]]
  show "buyer d = None" using f(5) h by simp
  show "purchasedAt d = None \<longleftrightarrow> acc_purchasedAt account = 0" using bnToDate_None_iff [OF f(3)] .
  show e: "endsAt d = None \<longleftrightarrow> acc_endsAt account = 0" using bnToDate_None_iff [OF f(2)] .
  show "isAvailable d \<longleftrightarrow> ''created'' \<in> set (acc_status account)"
    using f(6) fromAnchorDealStatus_Created [OF f(1)] by simp
  show "\<not> isExpired d" if "acc_endsAt account = 0" using that e f(7) by simp
next
  assume h: "acc_buyer account = PublicKey_default \<and> acc_purchasedAt account = 0 \<and>
    acc_endsAt account = 0 \<and> ''created'' \<in> set (acc_status account) \<and>
    \<bar>acc_dealId account\<bar> < 2 ^ 53 \<and> \<bar>acc_createdAt account\<bar> < 2 ^ 53"
  then obtain d' where d': "transformMeteoraLpDeal now account k = Inr d'"
    using transformMeteoraLpDeal_fresh [of account now k] by blast
  note f = transformMeteoraLpDeal_Inr [OF d']
  have "buyer d' = None" using f(5) h by simp
  moreover have "purchasedAt d' = None" using bnToDate_None_iff [OF f(3)] h by simp
  moreover have e: "endsAt d' = None" using bnToDate_None_iff [OF f(2)] h by simp
  moreover have "isAvailable d'" using f(6) fromAnchorDealStatus_Created [OF f(1)] h by simp
  moreover have "\<not> isExpired d'" using e f(7) by simp
  ultimately show "\<exists>d'. transformMeteoraLpDeal now account k = Inr d' \<and> buyer d' = None \<and>
            purchasedAt d' = None \<and> endsAt d' = None \<and> isAvailable d' \<and> \<not> isExpired d'"
    using d' by blast
qed

text \<open>A fresh record: default buyer, zero times, status tag \<open>created\<close>.\<close>

theorem transform_default_buyer_witness:
  "transformMeteoraLpDeal 1800000000000 (sample_account 0 0 0 [''created'']) 99 =
     Inr (sample_deal None None None Created True False) \<and>
   buyer (sample_deal None None None Created True False) = None \<and>
   purchasedAt (sample_deal None None None Created True False) = None \<and>
   endsAt (sample_deal None None None Created True False) = None \<and>
   isAvailable (sample_deal None None None Created True False) \<and>
   \<not> isExpired (sample_deal None None None Created True False)"
proof -
  have a: "acc_buyer (sample_account 0 0 0 [''created'']) = PublicKey_default \<and>
      acc_purchasedAt (sample_account 0 0 0 [''created'']) = 0 \<and>
      acc_endsAt (sample_account 0 0 0 [''created'']) = 0 \<and>
      ''created'' \<in> set (acc_status (sample_account 0 0 0 [''created''])) \<and>
      \<bar>acc_dealId (sample_account 0 0 0 [''created''])\<bar> < 2 ^ 53 \<and>
      \<bar>acc_createdAt (sample_account 0 0 0 [''created''])\<bar> < 2 ^ 53"
    by (simp add: sample_account_def PublicKey_default_def)
  show ?thesis
    using transform_default_buyer [of 1800000000000 "sample_account 0 0 0 [''created'']" 99
        "sample_deal None None None Created True False"]
      sample_created [of 1800000000000] a
    by simp
qed

text \<open>
  Claim C6, as stated, fails: a raw record with a zero purchase time and a non-zero end time
  decodes to an entity with \<open>purchasedAt\<close> absent and \<open>endsAt\<close> present.
\<close>

theorem transform_timestamps_counterexample:
  "transformMeteoraLpDeal 1800000000000 (sample_account 5 0 1700000200 [''active'']) 99 =
     Inr (sample_deal (Some 5) None (Some (ValidDate 1700000200000)) Active False True) \<and>
   purchasedAt (sample_deal (Some 5) None (Some (ValidDate 1700000200000)) Active False True) = None \<and>
   endsAt (sample_deal (Some 5) None (Some (ValidDate 1700000200000)) Active False True) \<noteq> None"
  using sample_half by (simp add: sample_deal_def)

text \<open>
  Claim C6, amended.  For every raw record that decodes, \<open>purchasedAt\<close> is absent exactly
  when the raw purchase time is zero and \<open>endsAt\<close> is absent exactly when the raw end time
  is zero; so the two are both absent or both present exactly when the two raw times are
  both zero or both non-zero.
\<close>

theorem transform_timestamps_independent:
  "transformMeteoraLpDeal now account k = Inr d \<Longrightarrow>
     (purchasedAt d = None \<longleftrightarrow> acc_purchasedAt account = 0) \<and>
     (endsAt d = None \<longleftrightarrow> acc_endsAt account = 0) \<and>
     ((purchasedAt d = None \<longleftrightarrow> endsAt d = None) \<longleftrightarrow>
      (acc_purchasedAt account = 0 \<longleftrightarrow> acc_endsAt account = 0))"
proof -
  assume h: "transformMeteoraLpDeal now account k = Inr d"
  note f = transformMeteoraLpDeal_Inr [OF h]
  show ?thesis using bnToDate_None_iff [OF f(3)] bnToDate_None_iff [OF f(2)] by simp
qed

text \<open>A bought record, with both times set, and a fresh one, with both zero.\<close>

theorem transform_timestamps_independent_witness:
  "transformMeteoraLpDeal 1800000000000 (sample_account 5 1700000100 1700000200 [''active'']) 99 =
     Inr (sample_deal (Some 5) (Some (ValidDate 1700000100000)) (Some (ValidDate 1700000200000))
            Active False True) \<and>
   purchasedAt (sample_deal (Some 5) (Some (ValidDate 1700000100000))
                  (Some (ValidDate 1700000200000)) Active False True) \<noteq> None \<and>
   endsAt (sample_deal (Some 5) (Some (ValidDate 1700000100000))
             (Some (ValidDate 1700000200000)) Active False True) \<noteq> None \<and>
   transformMeteoraLpDeal 1800000000000 (sample_account 0 0 0 [''created'']) 99 =
     Inr (sample_deal None None None Created True False) \<and>
   purchasedAt (sample_deal None None None Created True False) = None \<and>
   endsAt (sample_deal None None None Created True False) = None"
  using transform_timestamps_independent [OF sample_active]
    transform_timestamps_independent [OF sample_created [of 1800000000000]]
    sample_active sample_created [of 1800000000000]
  by (simp add: sample_account_def)

section \<open>Properties of the query filters\<close>









end
